theory Spec2Isabelle
  imports Main
begin

section \<open>JavaScript values\<close>

text \<open>
  The values that the secrets file, the parameter store and the two decoders exchange:
  what \<^verbatim>\<open>yaml.load\<close> and \<^verbatim>\<open>JSON.parse\<close> return for a document of scalars, sequences and
  mappings. An object is the list of its own enumerable properties in the order
  \<^verbatim>\<open>Object.entries\<close> walks them; a JavaScript object never holds a key twice,
  which \<open>wf_value\<close> below records. Numbers are the integers; dates and other objects with
  a prototype of their own are outside this model.
\<close>

datatype jsval =
    JUndefined
  | JNull
  | JBool bool
  | JNum int
  | JStr string
  | JArr "jsval list"
  | JObj "(string \<times> jsval) list"

text \<open>
  lodash's \<^verbatim>\<open>isObject\<close>: true of every value whose \<^verbatim>\<open>typeof\<close> is \<^verbatim>\<open>'object'\<close> (and not
  null) or \<^verbatim>\<open>'function'\<close>. An array is such a value.
\<close>

fun isObject :: "jsval \<Rightarrow> bool" where
  "isObject (JArr xs) = True"
| "isObject (JObj kvs) = True"
| "isObject v = False"

text \<open>
  Node's \<^verbatim>\<open>util.isDeepStrictEqual\<close> on these values. Primitives are compared with
  \<^verbatim>\<open>Object.is\<close>. Arrays must have the same length and deep-equal elements at every
  index. For plain objects Node compares the number of own keys, then looks every key
  of the first object up in the second and compares the two values.
\<close>

fun isDeepStrictEqual :: "jsval \<Rightarrow> jsval \<Rightarrow> bool" where
  "isDeepStrictEqual (JArr xs) (JArr ys) = list_all2 isDeepStrictEqual xs ys"
| "isDeepStrictEqual (JObj xs) (JObj ys) =
     (length xs = length ys \<and>
      (\<forall>(k, v) \<in> set xs.
         case map_of ys k of None \<Rightarrow> False | Some v' \<Rightarrow> isDeepStrictEqual v v'))"
| "isDeepStrictEqual a b = (a = b)"

text \<open>What JavaScript can throw here: a thrown string, and the errors of the libraries.\<close>

datatype exn =
    Thrown string
  | TypeError
  | YAMLException
  | SyntaxError
  | AwsError string
  | FsError string

text \<open>The decimal numeral of an array index, as \<^verbatim>\<open>Object.entries\<close> names it.\<close>

fun showNat :: "nat \<Rightarrow> string" where
  "showNat n =
     (if n < 10 then [''0123456789'' ! n]
      else showNat (n div 10) @ [''0123456789'' ! (n mod 10)])"

declare showNat.simps [simp del]

text \<open>
  \<^verbatim>\<open>Object.entries\<close>: the own enumerable string-keyed properties. An array yields its
  indices, a string its characters, other primitives nothing; null and undefined throw.
\<close>

fun Object_entries :: "jsval \<Rightarrow> exn + (string \<times> jsval) list" where
  "Object_entries (JObj kvs) = Inr kvs"
| "Object_entries (JArr xs) = Inr (zip (map showNat [0 ..< length xs]) xs)"
| "Object_entries (JStr s) = Inr (zip (map showNat [0 ..< length s]) (map (\<lambda>c. JStr [c]) s))"
| "Object_entries JUndefined = Inl TypeError"
| "Object_entries JNull = Inl TypeError"
| "Object_entries v = Inr []"

text \<open>
  \<^verbatim>\<open>Object.fromEntries\<close>: the entries are added one by one; a later entry with a key
  already present replaces the value and keeps the key's place. The object then lists
  its array-index keys (the canonical decimal numerals below \<^verbatim>\<open>2^32 - 1\<close>) first, in
  ascending order, and the other keys after them in the order they were added.
\<close>

fun obj_put :: "string \<Rightarrow> jsval \<Rightarrow> (string \<times> jsval) list \<Rightarrow> (string \<times> jsval) list" where
  "obj_put k v [] = [(k, v)]"
| "obj_put k v ((k', v') # kvs) =
     (if k = k' then (k, v) # kvs else (k', v') # obj_put k v kvs)"

definition natOfDigits :: "string \<Rightarrow> nat" where
  "natOfDigits k = foldl (\<lambda>n c. 10 * n + (of_char c - 48)) 0 k"

definition isArrayIndex :: "string \<Rightarrow> bool" where
  "isArrayIndex k =
     (k \<noteq> [] \<and> list_all (\<lambda>c. c \<in> set ''0123456789'') k
      \<and> (k = ''0'' \<or> hd k \<noteq> CHR ''0'') \<and> natOfDigits k < 4294967295)"

definition Object_fromEntries :: "(string \<times> jsval) list \<Rightarrow> jsval" where
  "Object_fromEntries es =
     (let kvs = foldl (\<lambda>kvs (k, v). obj_put k v kvs) [] es
      in JObj (sort_key (\<lambda>(k, v). natOfDigits k) (filter (\<lambda>(k, v). isArrayIndex k) kvs)
               @ filter (\<lambda>(k, v). \<not> isArrayIndex k) kvs))"

text \<open>
  \<^verbatim>\<open>String.prototype.replace\<close> with a string pattern: the first occurrence of the pattern,
  wherever it stands, is replaced.
\<close>

definition startsWith :: "string \<Rightarrow> string \<Rightarrow> bool" where
  "startsWith s pat = (take (length pat) s = pat)"

fun replace :: "string \<Rightarrow> string \<Rightarrow> string \<Rightarrow> string" where
  "replace [] pat rep = (if pat = [] then rep else [])"
| "replace (c # cs) pat rep =
     (if startsWith (c # cs) pat then rep @ drop (length pat) (c # cs)
      else c # replace cs pat rep)"

section \<open>The provider, the file system and the plugin\<close>

text \<open>
  The requests the plugin sends through \<^verbatim>\<open>this.aws.request(service, method, params)\<close>, one
  constructor per method with the fields of its parameter object, and the responses.
  \<open>PutParameter\<close> carries Name, Value, Type, KeyId and Overwrite; \<open>GetParameter\<close> Name and
  WithDecryption; \<open>GetParametersByPath\<close> Path, Recursive and WithDecryption (absent in
  the request that remove sends); \<open>DeleteParameters\<close> Names; \<open>DescribeStacks\<close> StackName.
\<close>

record parameter =
  Name :: string
  Value :: string

record stack_output =
  OutputKey :: string
  OutputValue :: string

record stack =
  Outputs :: "stack_output list option"

datatype request =
    PutParameter string jsval string string bool
  | GetParameter string bool
  | GetParametersByPath string bool "bool option"
  | DeleteParameters "string list"
  | DescribeStacks string

datatype response =
    PutParameterResult
  | GetParameterResult parameter
  | GetParametersByPathResult "parameter list"
  | DeleteParametersResult
  | DescribeStacksResult "stack list"

text \<open>
  \<^verbatim>\<open>serverless.service.custom.secrets\<close>: the two keys the plugin reads. Either may be
  absent, and so may the whole block (\<open>options = None\<close>). The key \<^verbatim>\<open>file\<close> is the
  field \<open>file'\<close>.
\<close>

record secrets_options =
  file' :: "string option"
  ssmPath :: "string option"

text \<open>
  The fields of \<^verbatim>\<open>this\<close> and the libraries the module requires. The provider answers a
  request by its content alone: within one run the plugin reads a path before it writes
  it and no two entries share a path, so no answer depends on an earlier request of the
  same run. The decoders and encoders of js-yaml and of the runtime are parameters.
\<close>

record plugin =
  options :: "secrets_options option"
  service :: string
  stage :: string
  stackName :: string
  DEBUG :: bool
  aws_request :: "request \<Rightarrow> exn + response"
  yaml_load :: "string \<Rightarrow> exn + jsval"
  yaml_dump :: "jsval \<Rightarrow> exn + string"
  JSON_parse :: "string \<Rightarrow> exn + jsval"
  JSON_stringify :: "jsval \<Rightarrow> string"
  JSON_stringify_response :: "response \<Rightarrow> string"

text \<open>
  What a run can change or leave a trace in: the local files, the requests sent to the
  provider (oldest first) and the lines written with \<^verbatim>\<open>serverless.cli.log\<close>.
\<close>

record world =
  files :: "string \<rightharpoonup> string"
  calls :: "request list"
  cli_log :: "string list"

definition log :: "string \<Rightarrow> world \<Rightarrow> world" where
  "log msg w = w\<lparr>cli_log := cli_log w @ [msg]\<rparr>"

definition debug_log :: "plugin \<Rightarrow> string \<Rightarrow> world \<Rightarrow> world" where
  "debug_log p msg w = (if DEBUG p then log msg w else w)"

definition request :: "plugin \<Rightarrow> request \<Rightarrow> world \<Rightarrow> (exn + response) \<times> world" where
  "request p r w = (aws_request p r, w\<lparr>calls := calls w @ [r]\<rparr>)"

definition existsSync :: "world \<Rightarrow> string \<Rightarrow> bool" where
  "existsSync w path = (files w path \<noteq> None)"

definition readFileSync :: "world \<Rightarrow> string \<Rightarrow> exn + string" where
  "readFileSync w path =
     (case files w path of None \<Rightarrow> Inl (FsError ''ENOENT'') | Some content \<Rightarrow> Inr content)"

definition writeFileSync :: "string \<Rightarrow> string \<Rightarrow> world \<Rightarrow> world" where
  "writeFileSync path content w = w\<lparr>files := (files w)(path \<mapsto> content)\<rparr>"

text \<open>\<^verbatim>\<open>!x\<close> for a value that is undefined or a string.\<close>

definition falsy :: "string option \<Rightarrow> bool" where
  "falsy x = (case x of None \<Rightarrow> True | Some s \<Rightarrow> s = [])"

definition MissingConfigError :: exn where
  "MissingConfigError = Thrown ''Please specify a secrets file''"

definition InvalidFormatError :: exn where
  "InvalidFormatError =
     Thrown ''Secrets file must be valid yaml or json containing key-value pairs.''"

section \<open>The plugin's methods\<close>

text \<open>
  The namespace prefix, as both deploySecrets and pullDeployedSecrets compute it:
  \<^verbatim>\<open>this.options?.ssmPath || `/${service}-${stage}/secrets/`\<close>.
\<close>

definition resolveSsmPath :: "plugin \<Rightarrow> string" where
  "resolveSsmPath p =
     (case (case options p of None \<Rightarrow> None | Some opts \<Rightarrow> ssmPath opts) of
        None \<Rightarrow> ''/'' @ service p @ ''-'' @ stage p @ ''/secrets/''
      | Some s \<Rightarrow> if s = [] then ''/'' @ service p @ ''-'' @ stage p @ ''/secrets/'' else s)"

text \<open>
  parseSecretsFile. Reading \<^verbatim>\<open>this.options.file\<close> throws a TypeError when the options
  block is undefined.
\<close>

definition parseSecretsFile :: "plugin \<Rightarrow> world \<Rightarrow> (exn + jsval) \<times> world" where
  "parseSecretsFile p w =
     (case options p of
        None \<Rightarrow> (Inl TypeError, w)
      | Some opts \<Rightarrow>
          if falsy (file' opts) then (Inl MissingConfigError, w)
          else if \<not> existsSync w (the (file' opts))
          then (Inr (JObj []), log ''Secrets file not found, skipping...'' w)
          else
            (case readFileSync w (the (file' opts)) of
               Inl e \<Rightarrow> (Inl e, w)
             | Inr content \<Rightarrow>
                 (case yaml_load p content of
                    Inl e \<Rightarrow> (Inl e, w)
                  | Inr secrets \<Rightarrow>
                      if isObject secrets then (Inr secrets, w)
                      else (Inl InvalidFormatError, w))))"

definition pushSecret :: "plugin \<Rightarrow> string \<Rightarrow> jsval \<Rightarrow> world \<Rightarrow> (exn + unit) \<times> world" where
  "pushSecret p name secret w =
     (case request p
        (PutParameter name
           (if isObject secret then JStr (JSON_stringify p secret) else secret)
           ''SecureString'' ''alias/aws/ssm'' True) w of
        (Inl e, w1) \<Rightarrow> (Inl e, w1)
      | (Inr putParameterResponse, w1) \<Rightarrow>
          (Inr (),
           debug_log p
             (''SSM PutParameter response: '' @ JSON_stringify_response p putParameterResponse)
             w1))"

text \<open>
  secretChanged. Everything between \<^verbatim>\<open>try\<close> and \<^verbatim>\<open>catch\<close> that throws (the request, the
  read of \<^verbatim>\<open>.Parameter.Value\<close> on a response without it, the decoder) ends in
  \<^verbatim>\<open>return true\<close>.
\<close>

definition secretChanged :: "plugin \<Rightarrow> string \<Rightarrow> jsval \<Rightarrow> world \<Rightarrow> bool \<times> world" where
  "secretChanged p name newSecret w =
     (case request p (GetParameter name True) w of
        (Inl e, w1) \<Rightarrow> (True, w1)
      | (Inr getParameterResponse, w1) \<Rightarrow>
          (let w2 = debug_log p
                 (''SSM GetParameter response: '' @ JSON_stringify_response p getParameterResponse)
                 w1
           in case getParameterResponse of
                GetParameterResult par \<Rightarrow>
                  (case yaml_load p (Value par) of
                     Inl e \<Rightarrow> (True, w2)
                   | Inr currentSecret \<Rightarrow> (\<not> isDeepStrictEqual newSecret currentSecret, w2))
              | _ \<Rightarrow> (True, w2)))"

text \<open>The callback deploySecrets maps over the entries: one task per secret.\<close>

definition deployEntry ::
  "plugin \<Rightarrow> string \<Rightarrow> string \<times> jsval \<Rightarrow> world \<Rightarrow> (exn + unit) \<times> world" where
  "deployEntry p prefix entry w =
     (case entry of (name, secret) \<Rightarrow>
        (case secretChanged p (prefix @ name) secret w of
           (True, w1) \<Rightarrow>
             (case pushSecret p (prefix @ name) secret
                     (log (''- '' @ name @ '' secret changed'') w1) of
                (Inl e, w2) \<Rightarrow> (Inl e, w2)
              | (Inr u, w2) \<Rightarrow>
                  (Inr (), log (''  '' @ name @ '' secret successfully upated'') w2))
         | (False, w1) \<Rightarrow> (Inr (), log (''- '' @ name @ '' secret unchanged'') w1)))"

text \<open>
  \<^verbatim>\<open>await Promise.all(tasks)\<close>: every task is started and runs to its end whether or not
  another one rejects; the whole rejects when one of them does. In a run of the plugin
  every task first sends its get, and the puts follow as the answers arrive, in no fixed
  order. The model runs the tasks one after the other in the order of the entries: the
  order in which the requests and log lines of different entries appear is the model's,
  and no statement below depends on it. Results and the set of requests are the same in
  every order, since the provider answers each request by its content. When several
  tasks reject, the model reports the rejection of the first entry.
\<close>

fun Promise_all :: "(world \<Rightarrow> (exn + unit) \<times> world) list \<Rightarrow> world \<Rightarrow> (exn + unit) \<times> world" where
  "Promise_all [] w = (Inr (), w)"
| "Promise_all (t # ts) w =
     (case t w of (r, w1) \<Rightarrow>
        (case Promise_all ts w1 of (rs, w2) \<Rightarrow>
           (case r of Inl e \<Rightarrow> (Inl e, w2) | Inr u \<Rightarrow> (rs, w2))))"

definition deploySecrets :: "plugin \<Rightarrow> world \<Rightarrow> (exn + unit) \<times> world" where
  "deploySecrets p w =
     (case parseSecretsFile p w of
        (Inl e, w1) \<Rightarrow> (Inl e, w1)
      | (Inr secrets, w1) \<Rightarrow>
          (case Object_entries secrets of
             Inl e \<Rightarrow> (Inl e, w1)
           | Inr entries \<Rightarrow> Promise_all (map (deployEntry p (resolveSsmPath p)) entries) w1))"

text \<open>
  getPreviousSSMPath: the value of the output \<^verbatim>\<open>SsmBasePath\<close> of the first stack, or
  undefined when there is no stack, no output list or no such output.
\<close>

definition getPreviousSSMPath :: "plugin \<Rightarrow> world \<Rightarrow> (exn + string option) \<times> world" where
  "getPreviousSSMPath p w =
     (case request p (DescribeStacks (stackName p)) w of
        (Inl e, w1) \<Rightarrow> (Inl e, w1)
      | (Inr describeStackResponse, w1) \<Rightarrow>
          (case describeStackResponse of
             DescribeStacksResult stacks \<Rightarrow>
               (Inr (case stacks of
                       [] \<Rightarrow> None
                     | s # rest \<Rightarrow>
                         (case Outputs s of
                            None \<Rightarrow> None
                          | Some outs \<Rightarrow>
                              (case find (\<lambda>out. OutputKey out = ''SsmBasePath'') outs of
                                 None \<Rightarrow> None
                               | Some out \<Rightarrow> Some (OutputValue out)))),
                debug_log p
                  (''CloudFormation DescribeStacks response: ''
                     @ JSON_stringify_response p describeStackResponse)
                  w1)
           | _ \<Rightarrow> (Inl TypeError, w1)))"

text \<open>
  removeSecrets, in its two parts: up to the \<^verbatim>\<open>await\<close> the request is sent; what follows
  runs when the provider has answered.
\<close>

definition removeSecrets_settled ::
  "plugin \<Rightarrow> exn + response \<Rightarrow> world \<Rightarrow> (exn + unit) \<times> world" where
  "removeSecrets_settled p answer w =
     (case answer of
        Inl e \<Rightarrow> (Inl e, w)
      | Inr deleteParameterResponse \<Rightarrow>
          (Inr (),
           debug_log p
             (''SSM DeleteParameter response: ''
                @ JSON_stringify_response p deleteParameterResponse)
             w))"

definition removeSecrets :: "plugin \<Rightarrow> string list \<Rightarrow> world \<Rightarrow> (exn + unit) \<times> world" where
  "removeSecrets p names w =
     (case request p (DeleteParameters names) w of
        (answer, w1) \<Rightarrow> removeSecrets_settled p answer w1)"

text \<open>
  removeDeployedSecrets. The call \<^verbatim>\<open>this.removeSecrets(parameterNames)\<close> is not awaited:
  removeSecrets runs up to its own \<^verbatim>\<open>await\<close>, which sends the request, and its promise is
  dropped; the method writes its last log line and returns, whatever becomes of the
  deletion. The rest of removeSecrets runs when the answer arrives, after that line,
  and its outcome reaches nobody (a rejection stays unhandled in the host process,
  which this model does not follow). The world returned is the one after the answer.
\<close>

definition removeDeployedSecrets :: "plugin \<Rightarrow> world \<Rightarrow> (exn + unit) \<times> world" where
  "removeDeployedSecrets p w =
     (case getPreviousSSMPath p w of
        (Inl e, w1) \<Rightarrow> (Inl e, w1)
      | (Inr previous, w1) \<Rightarrow>
          if falsy previous then (Inr (), w1)
          else
            (case request p (GetParametersByPath (the previous @ ''/secrets'') True None) w1 of
               (Inl e, w2) \<Rightarrow> (Inl e, w2)
             | (Inr listParametersResponse, w2) \<Rightarrow>
                 (case listParametersResponse of
                    GetParametersByPathResult ps \<Rightarrow>
                      (case request p (DeleteParameters (map Name ps))
                              (debug_log p
                                 (''SSM GetParametersByPath response: ''
                                    @ JSON_stringify_response p listParametersResponse)
                                 w2) of
                         (answer, w3) \<Rightarrow>
                           (case removeSecrets_settled p answer
                                   (log (''Secrets in '' @ the previous @ '' removed.'') w3) of
                              (dropped, w4) \<Rightarrow> (Inr (), w4)))
                  | _ \<Rightarrow> (Inl TypeError, w2))))"

text \<open>
  pullSecrets returns \<^verbatim>\<open>response.Parameters\<close>; on a response without that list the
  caller's \<^verbatim>\<open>rawSecrets.map\<close> throws the TypeError, which the model raises here.
\<close>

definition pullSecrets :: "plugin \<Rightarrow> string \<Rightarrow> world \<Rightarrow> (exn + parameter list) \<times> world" where
  "pullSecrets p path w =
     (case request p (GetParametersByPath path True (Some True)) w of
        (Inl e, w1) \<Rightarrow> (Inl e, w1)
      | (Inr getParametersByPathResponse, w1) \<Rightarrow>
          (let w2 = debug_log p
                 (''SSM GetParametersByPath response: ''
                    @ JSON_stringify_response p getParametersByPathResponse)
                 w1
           in case getParametersByPathResponse of
                GetParametersByPathResult ps \<Rightarrow> (Inr ps, w2)
              | _ \<Rightarrow> (Inl TypeError, w2)))"

text \<open>The callback of \<^verbatim>\<open>rawSecrets.map\<close> in pullDeployedSecrets, and the map itself,
  which ends at the first entry whose callback throws.\<close>

definition pullEntry :: "plugin \<Rightarrow> string \<Rightarrow> parameter \<Rightarrow> exn + (string \<times> jsval)" where
  "pullEntry p prefix secret =
     (case JSON_parse p (Value secret) of
        Inl e \<Rightarrow> Inl e
      | Inr v \<Rightarrow> Inr (replace (Name secret) prefix '''', v))"

fun map_throwing :: "('a \<Rightarrow> exn + 'b) \<Rightarrow> 'a list \<Rightarrow> exn + 'b list" where
  "map_throwing f [] = Inr []"
| "map_throwing f (x # xs) =
     (case f x of
        Inl e \<Rightarrow> Inl e
      | Inr y \<Rightarrow> (case map_throwing f xs of Inl e \<Rightarrow> Inl e | Inr ys \<Rightarrow> Inr (y # ys)))"

definition pullDeployedSecrets :: "plugin \<Rightarrow> world \<Rightarrow> (exn + unit) \<times> world" where
  "pullDeployedSecrets p w =
     (case options p of
        None \<Rightarrow> (Inl TypeError, w)
      | Some opts \<Rightarrow>
          if falsy (file' opts) then (Inl MissingConfigError, w)
          else
            (case pullSecrets p (resolveSsmPath p) w of
               (Inl e, w1) \<Rightarrow> (Inl e, w1)
             | (Inr rawSecrets, w1) \<Rightarrow>
                 (case map_throwing (pullEntry p (resolveSsmPath p)) rawSecrets of
                    Inl e \<Rightarrow> (Inl e, w1)
                  | Inr secretEntries \<Rightarrow>
                      (case yaml_dump p (Object_fromEntries secretEntries) of
                         Inl e \<Rightarrow> (Inl e, w1)
                       | Inr text \<Rightarrow> (Inr (), writeFileSync (the (file' opts)) text w1)))))"

section \<open>Deep structural equality, as the diff is specified\<close>

text \<open>
  A value is well formed when no object in it holds a key twice.
\<close>

fun wf_value :: "jsval \<Rightarrow> bool" where
  "wf_value (JArr xs) = (\<forall>x \<in> set xs. wf_value x)"
| "wf_value (JObj kvs) = (distinct (map fst kvs) \<and> (\<forall>(k, v) \<in> set kvs. wf_value v))"
| "wf_value v = True"

text \<open>
  The equality of the specification, written from its words and not from Node's
  procedure: scalars are equal when they are the same value of the same type;
  sequences when they are equal position by position; mappings when they have the same
  set of keys and equal values under every key, whatever the order of the keys.
\<close>

fun deep_equal :: "jsval \<Rightarrow> jsval \<Rightarrow> bool" where
  "deep_equal (JArr xs) (JArr ys) = list_all2 deep_equal xs ys"
| "deep_equal (JObj xs) (JObj ys) =
     (fst ` set xs = fst ` set ys \<and>
      (\<forall>(k, v) \<in> set xs. \<forall>(k', v') \<in> set ys. k = k' \<longrightarrow> deep_equal v v'))"
| "deep_equal a b = (a = b)"

section \<open>A sample deployment\<close>

text \<open>
  Service \<^verbatim>\<open>svc\<close>, stage \<^verbatim>\<open>dev\<close>, no prefix override. The store holds \<^verbatim>\<open>db\<close> as the bare
  text \<^verbatim>\<open>pw1\<close> (what pushSecret writes for the scalar secret \<^verbatim>\<open>"pw1"\<close>) and \<^verbatim>\<open>api\<close> as the
  JSON text of an object whose \<^verbatim>\<open>ttl\<close> is 60; it refuses deletions. The stack records the
  output \<^verbatim>\<open>SsmBasePath\<close>. The decoders are tables of what js-yaml and \<^verbatim>\<open>JSON.parse\<close> return
  on the texts that occur below; the examples reach no other text.
\<close>

definition demo_api_text :: string where
  \<open>demo_api_text = ''{"key":"abc","ttl":60}''\<close>

definition demo_request :: "request \<Rightarrow> exn + response" where
  "demo_request r =
     (case r of
        GetParameter n d \<Rightarrow>
          if n = ''/svc-dev/secrets/db''
          then Inr (GetParameterResult \<lparr>Name = n, Value = ''pw1''\<rparr>)
          else if n = ''/svc-dev/secrets/api''
          then Inr (GetParameterResult \<lparr>Name = n, Value = demo_api_text\<rparr>)
          else Inl (AwsError ''ParameterNotFound'')
      | PutParameter n v t k ov \<Rightarrow> Inr PutParameterResult
      | GetParametersByPath path rec d \<Rightarrow>
          Inr (GetParametersByPathResult
                 [\<lparr>Name = ''/svc-dev/secrets/db'', Value = ''pw1''\<rparr>,
                  \<lparr>Name = ''/svc-dev/secrets/api'', Value = demo_api_text\<rparr>])
      | DeleteParameters ns \<Rightarrow> Inl (AwsError ''AccessDeniedException'')
      | DescribeStacks n \<Rightarrow>
          Inr (DescribeStacksResult
                 [\<lparr>Outputs = Some [\<lparr>OutputKey = ''SsmBasePath'', OutputValue = ''/svc-dev''\<rparr>]\<rparr>]))"

definition demo_document :: jsval where
  "demo_document =
     JObj [(''db'', JStr ''pw1''),
           (''api'', JObj [(''key'', JStr ''abc''), (''ttl'', JNum 30)])]"

definition demo_yaml_load :: "string \<Rightarrow> exn + jsval" where
  "demo_yaml_load s =
     (if s = ''{db: pw1, api: {key: abc, ttl: 30}}'' then Inr demo_document
      else if s = ''pw1'' then Inr (JStr ''pw1'')
      else if s = demo_api_text then Inr (JObj [(''key'', JStr ''abc''), (''ttl'', JNum 60)])
      else if s = ''{ttl: 30, key: abc}''
      then Inr (JObj [(''ttl'', JNum 30), (''key'', JStr ''abc'')])
      else if s = ''[a, b]'' then Inr (JArr [JStr ''a'', JStr ''b''])
      else Inl YAMLException)"

definition demo_JSON_parse :: "string \<Rightarrow> exn + jsval" where
  "demo_JSON_parse s =
     (if s = demo_api_text then Inr (JObj [(''key'', JStr ''abc''), (''ttl'', JNum 60)])
      else Inl SyntaxError)"

definition demo_local_api_text :: string where
  \<open>demo_local_api_text = ''{"key":"abc","ttl":30}''\<close>

definition demo_JSON_stringify :: "jsval \<Rightarrow> string" where
  "demo_JSON_stringify v =
     (if v = JObj [(''key'', JStr ''abc''), (''ttl'', JNum 30)]
      then demo_local_api_text else ''null'')"

definition demo :: plugin where
  "demo =
     \<lparr>options = Some \<lparr>file' = Some ''secrets.yml'', ssmPath = None\<rparr>,
      service = ''svc'', stage = ''dev'', stackName = ''svc-dev'', DEBUG = False,
      aws_request = demo_request,
      yaml_load = demo_yaml_load,
      yaml_dump = (\<lambda>v. Inr ''{}''),
      JSON_parse = demo_JSON_parse,
      JSON_stringify = demo_JSON_stringify,
      JSON_stringify_response = (\<lambda>r. ''{}'')\<rparr>"

definition demo_world :: "string \<Rightarrow> world" where
  "demo_world content =
     \<lparr>files = [''secrets.yml'' \<mapsto> content], calls = [], cli_log = []\<rparr>"

definition empty_world :: world where
  "empty_world = \<lparr>files = Map.empty, calls = [], cli_log = []\<rparr>"

section \<open>Node's comparison computes the specified equality\<close>

text \<open>
  On objects without repeated keys, comparing the key counts and looking up every key of
  the first object in the second is the same as comparing the key sets and the values
  key by key.
\<close>

lemma obj_keys_values_cong:
  assumes dx: "distinct (map fst xs)" and dy: "distinct (map fst ys)"
    and IH: "\<And>k v v'. (k, v) \<in> set xs \<Longrightarrow> (k, v') \<in> set ys \<Longrightarrow> A v v' = B v v'"
  shows "(length xs = length ys \<and>
      (\<forall>(k, v) \<in> set xs. case map_of ys k of None \<Rightarrow> False | Some v' \<Rightarrow> A v v'))
    = (fst ` set xs = fst ` set ys \<and>
      (\<forall>(k, v) \<in> set xs. \<forall>(k', v') \<in> set ys. k = k' \<longrightarrow> B v v'))" (is "?L = ?R")
proof
  assume L: ?L
  have sub: "fst ` set xs \<subseteq> fst ` set ys"
  proof
    fix k assume "k \<in> fst ` set xs"
    then obtain v where kv: "(k, v) \<in> set xs" by auto
    with L have "map_of ys k \<noteq> None" by (auto split: option.splits)
    then show "k \<in> fst ` set ys" by (simp add: map_of_eq_None_iff)
  qed
  have "card (fst ` set xs) = length xs" using dx by (metis distinct_card length_map set_map)
  moreover have "card (fst ` set ys) = length ys" using dy by (metis distinct_card length_map set_map)
  ultimately have "fst ` set xs = fst ` set ys"
    using sub L by (simp add: card_subset_eq)
  moreover have "\<forall>(k, v) \<in> set xs. \<forall>(k', v') \<in> set ys. k = k' \<longrightarrow> B v v'"
  proof (clarify)
    fix k v v' assume a: "(k, v) \<in> set xs" and b: "(k, v') \<in> set ys"
    from b dy have "map_of ys k = Some v'" by simp
    with L a have "A v v'" by fastforce
    with IH[OF a b] show "B v v'" by simp
  qed
  ultimately show ?R by simp
next
  assume R: ?R
  have "card (fst ` set xs) = length xs" using dx by (metis distinct_card length_map set_map)
  moreover have "card (fst ` set ys) = length ys" using dy by (metis distinct_card length_map set_map)
  ultimately have len: "length xs = length ys" using R by simp
  have "\<forall>(k, v) \<in> set xs. case map_of ys k of None \<Rightarrow> False | Some v' \<Rightarrow> A v v'"
  proof (clarify)
    fix k v assume a: "(k, v) \<in> set xs"
    then have "k \<in> fst ` set ys" using R by force
    then obtain v' where b: "(k, v') \<in> set ys" by auto
    with dy have m: "map_of ys k = Some v'" by simp
    from R a b have "B v v'" by fastforce
    with IH[OF a b] m show "case map_of ys k of None \<Rightarrow> False | Some v' \<Rightarrow> A v v'" by simp
  qed
  with len show ?L by simp
qed

lemma isDeepStrictEqual_deep_equal:
  "wf_value a \<Longrightarrow> wf_value b \<Longrightarrow> isDeepStrictEqual a b = deep_equal a b"
proof (induction a b rule: isDeepStrictEqual.induct)
  case (1 xs ys)
  have "list_all2 isDeepStrictEqual xs ys = list_all2 deep_equal xs ys"
    by (rule list.rel_cong[OF refl refl]) (use 1 in auto)
  then show ?case by simp
next
  case (2 xs ys)
  have "\<And>k v v'. (k, v) \<in> set xs \<Longrightarrow> (k, v') \<in> set ys \<Longrightarrow> isDeepStrictEqual v v' = deep_equal v v'"
  proof -
    fix k v v' assume a: "(k, v) \<in> set xs" and b: "(k, v') \<in> set ys"
    from b 2(3) have "map_of ys k = Some v'" by simp
    moreover from a 2(2) have "wf_value v" by auto
    moreover from b 2(3) have "wf_value v'" by auto
    ultimately show "isDeepStrictEqual v v' = deep_equal v v'" using "2.IH"[OF a] by simp
  qed
  with obj_keys_values_cong[of xs ys isDeepStrictEqual deep_equal] 2(2,3) show ?case by simp
qed simp_all

text \<open>
  The specified equality does what its words say: it holds between a well-formed value
  and itself, it ignores the order of the keys of a mapping, it does not ignore the
  order of a sequence, and it tells a number from the string of its digits.
\<close>

lemma deep_equal_refl: "wf_value a \<Longrightarrow> deep_equal a a"
proof (induction a)
  case (JArr xs)
  then show ?case by (simp add: list_all2_same)
next
  case (JObj kvs)
  have "deep_equal v v'" if "(k, v) \<in> set kvs" "(k, v') \<in> set kvs" for k v v'
  proof -
    from JObj.prems that have "v = v'" by (auto dest: eq_key_imp_eq_value)
    moreover from JObj.prems that have "wf_value v" by auto
    ultimately show ?thesis using JObj.IH[of "(k, v)" v] that by simp
  qed
  then show ?case by auto
qed simp_all

lemma deep_equal_key_order:
  assumes "wf_value (JObj xs)" and "distinct (map fst ys)" and "set ys = set xs"
  shows "deep_equal (JObj xs) (JObj ys)"
proof -
  have "deep_equal v v'" if "(k, v) \<in> set xs" "(k, v') \<in> set xs" for k v v'
  proof -
    from assms(1) that have "v = v'" by (auto dest: eq_key_imp_eq_value)
    moreover from assms(1) that have "wf_value v" by auto
    ultimately show ?thesis by (simp add: deep_equal_refl)
  qed
  with assms(3) show ?thesis by auto
qed

lemma deep_equal_sequence_order:
  "\<not> deep_equal (JArr [JNum 1, JNum 2]) (JArr [JNum 2, JNum 1])"
  by simp

lemma deep_equal_scalar_type:
  "\<not> deep_equal (JNum 1) (JStr ''1'')"
  by simp

section \<open>The diff\<close>

text \<open>The verdict of secretChanged does not depend on the world it runs in.\<close>

lemma fst_secretChanged:
  "fst (secretChanged p name newSecret w) =
     (case aws_request p (GetParameter name True) of
        Inl e \<Rightarrow> True
      | Inr resp \<Rightarrow>
          (case resp of
             GetParameterResult par \<Rightarrow>
               (case yaml_load p (Value par) of
                  Inl e \<Rightarrow> True
                | Inr currentSecret \<Rightarrow> \<not> isDeepStrictEqual newSecret currentSecret)
           | _ \<Rightarrow> True))"
  by (simp add: secretChanged_def request_def Let_def split: sum.splits response.splits)

text \<open>
  C1. When the fetch succeeds, secretChanged returns false exactly when the remote raw
  value decodes (with the YAML decoder) to a value that is deep-structurally equal to
  the local one, in the sense of \<open>deep_equal\<close>: keys in any order, sequences in order,
  scalars of the same type. A raw value that does not decode counts as changed.
\<close>

theorem secretChanged_false_iff_deep_equal:
  assumes fetched: "aws_request p (GetParameter name True) = Inr (GetParameterResult par)"
    and local: "wf_value newSecret"
    and remote: "\<forall>v. yaml_load p (Value par) = Inr v \<longrightarrow> wf_value v"
  shows "(\<not> fst (secretChanged p name newSecret w)) =
         (\<exists>v. yaml_load p (Value par) = Inr v \<and> deep_equal newSecret v)"
proof (cases "yaml_load p (Value par)")
  case (Inl e)
  with fetched show ?thesis by (simp add: fst_secretChanged)
next
  case (Inr v)
  with remote have "wf_value v" by simp
  with local have "isDeepStrictEqual newSecret v = deep_equal newSecret v"
    by (rule isDeepStrictEqual_deep_equal)
  with fetched Inr show ?thesis by (simp add: fst_secretChanged)
qed

theorem secretChanged_false_iff_deep_equal_witness:
  "aws_request (demo\<lparr>aws_request := (\<lambda>r. Inr (GetParameterResult \<lparr>Name = ''/svc-dev/secrets/api'', Value = ''{ttl: 30, key: abc}''\<rparr>))\<rparr>)
      (GetParameter ''/svc-dev/secrets/api'' True)
     = Inr (GetParameterResult \<lparr>Name = ''/svc-dev/secrets/api'', Value = ''{ttl: 30, key: abc}''\<rparr>)
   \<and> wf_value (JObj [(''key'', JStr ''abc''), (''ttl'', JNum 30)])
   \<and> yaml_load demo ''{ttl: 30, key: abc}'' = Inr (JObj [(''ttl'', JNum 30), (''key'', JStr ''abc'')])
   \<and> wf_value (JObj [(''ttl'', JNum 30), (''key'', JStr ''abc'')])
   \<and> \<not> fst (secretChanged
        (demo\<lparr>aws_request := (\<lambda>r. Inr (GetParameterResult \<lparr>Name = ''/svc-dev/secrets/api'', Value = ''{ttl: 30, key: abc}''\<rparr>))\<rparr>)
        ''/svc-dev/secrets/api'' (JObj [(''key'', JStr ''abc''), (''ttl'', JNum 30)]) empty_world)"
  using secretChanged_false_iff_deep_equal
    [of "demo\<lparr>aws_request := (\<lambda>r. Inr (GetParameterResult \<lparr>Name = ''/svc-dev/secrets/api'', Value = ''{ttl: 30, key: abc}''\<rparr>))\<rparr>"
        "''/svc-dev/secrets/api''"
        "\<lparr>Name = ''/svc-dev/secrets/api'', Value = ''{ttl: 30, key: abc}''\<rparr>"
        "JObj [(''key'', JStr ''abc''), (''ttl'', JNum 30)]" empty_world]
  by (simp add: demo_def demo_yaml_load_def demo_api_text_def insert_commute)

text \<open>
  C2. When the fetch fails, with whatever error, secretChanged returns true for every
  local value; and it returns false only when the fetch succeeded, the decoder
  succeeded and the decoded value is deep-structurally equal to the local one, in the
  sense of \<open>deep_equal\<close> (for values in which no object repeats a key).
\<close>

theorem secretChanged_fetch_failure:
  "(\<forall>e. aws_request p (GetParameter name True) = Inl e \<longrightarrow> fst (secretChanged p name newSecret w))
   \<and> (wf_value newSecret
       \<and> (\<forall>par v. aws_request p (GetParameter name True) = Inr (GetParameterResult par)
                  \<and> yaml_load p (Value par) = Inr v \<longrightarrow> wf_value v)
       \<and> \<not> fst (secretChanged p name newSecret w) \<longrightarrow>
        (\<exists>par currentSecret.
           aws_request p (GetParameter name True) = Inr (GetParameterResult par)
           \<and> yaml_load p (Value par) = Inr currentSecret
           \<and> deep_equal newSecret currentSecret))"
proof (intro conjI allI impI)
  fix e
  assume "aws_request p (GetParameter name True) = Inl e"
  then show "fst (secretChanged p name newSecret w)"
    by (simp add: fst_secretChanged)
next
  assume a: "wf_value newSecret
       \<and> (\<forall>par v. aws_request p (GetParameter name True) = Inr (GetParameterResult par)
                  \<and> yaml_load p (Value par) = Inr v \<longrightarrow> wf_value v)
       \<and> \<not> fst (secretChanged p name newSecret w)"
  then obtain par currentSecret
    where fetched: "aws_request p (GetParameter name True) = Inr (GetParameterResult par)"
      and decoded: "yaml_load p (Value par) = Inr currentSecret"
      and same: "isDeepStrictEqual newSecret currentSecret"
    by (auto simp: fst_secretChanged split: sum.splits response.splits)
  from a fetched decoded have "wf_value currentSecret" by blast
  with a same have "deep_equal newSecret currentSecret"
    by (simp add: isDeepStrictEqual_deep_equal)
  with fetched decoded
  show "\<exists>par currentSecret.
           aws_request p (GetParameter name True) = Inr (GetParameterResult par)
           \<and> yaml_load p (Value par) = Inr currentSecret
           \<and> deep_equal newSecret currentSecret"
    by blast
qed

theorem secretChanged_fetch_failure_witness:
  "aws_request demo (GetParameter ''/svc-dev/secrets/new'' True) = Inl (AwsError ''ParameterNotFound'')
   \<and> fst (secretChanged demo ''/svc-dev/secrets/new'' (JStr ''pw1'') empty_world)
   \<and> wf_value (JStr ''pw1'')
   \<and> aws_request demo (GetParameter ''/svc-dev/secrets/db'' True)
       = Inr (GetParameterResult \<lparr>Name = ''/svc-dev/secrets/db'', Value = ''pw1''\<rparr>)
   \<and> yaml_load demo ''pw1'' = Inr (JStr ''pw1'')
   \<and> \<not> fst (secretChanged demo ''/svc-dev/secrets/db'' (JStr ''pw1'') empty_world)
   \<and> deep_equal (JStr ''pw1'') (JStr ''pw1'')"
  using secretChanged_fetch_failure [of demo "''/svc-dev/secrets/new''" "JStr ''pw1''" empty_world]
    secretChanged_fetch_failure [of demo "''/svc-dev/secrets/db''" "JStr ''pw1''" empty_world]
  by (simp add: demo_def demo_request_def demo_yaml_load_def fst_secretChanged)

section \<open>The namespace prefix\<close>

text \<open>
  C3. The prefix is the override, verbatim, when the override is present and not the
  empty string; in every other case it is \<^verbatim>\<open>/{service}-{stage}/secrets/\<close>.
\<close>

theorem resolveSsmPath_override_or_default:
  "(\<forall>opts s. options p = Some opts \<and> ssmPath opts = Some s \<and> s \<noteq> [] \<longrightarrow> resolveSsmPath p = s)
   \<and> ((options p = None
        \<or> (\<exists>opts. options p = Some opts \<and> (ssmPath opts = None \<or> ssmPath opts = Some [])))
       \<longrightarrow> resolveSsmPath p = ''/'' @ service p @ ''-'' @ stage p @ ''/secrets/'')"
  by (auto simp: resolveSsmPath_def)

theorem resolveSsmPath_override_or_default_witness:
  "resolveSsmPath (demo\<lparr>options := Some \<lparr>file' = None, ssmPath = Some ''/custom/path/''\<rparr>\<rparr>) = ''/custom/path/''
   \<and> resolveSsmPath (demo\<lparr>options := Some \<lparr>file' = None, ssmPath = Some ''''\<rparr>\<rparr>) = ''/svc-dev/secrets/''
   \<and> resolveSsmPath demo = ''/svc-dev/secrets/''
   \<and> resolveSsmPath (demo\<lparr>options := None\<rparr>) = ''/svc-dev/secrets/''"
  using resolveSsmPath_override_or_default [of "demo\<lparr>options := Some \<lparr>file' = None, ssmPath = Some ''/custom/path/''\<rparr>\<rparr>"]
    resolveSsmPath_override_or_default [of "demo\<lparr>options := Some \<lparr>file' = None, ssmPath = Some ''''\<rparr>\<rparr>"]
    resolveSsmPath_override_or_default [of demo]
    resolveSsmPath_override_or_default [of "demo\<lparr>options := None\<rparr>"]
  by (simp add: demo_def)

section \<open>What each step leaves in the world\<close>

lemma log_fields [simp]:
  "files (log msg w) = files w" "calls (log msg w) = calls w"
  "cli_log (log msg w) = cli_log w @ [msg]"
  by (simp_all add: log_def)

lemma debug_log_fields [simp]:
  "files (debug_log p msg w) = files w" "calls (debug_log p msg w) = calls w"
  by (simp_all add: debug_log_def)

lemma request_fields [simp]:
  "fst (request p r w) = aws_request p r"
  "files (snd (request p r w)) = files w"
  "calls (snd (request p r w)) = calls w @ [r]"
  "cli_log (snd (request p r w)) = cli_log w"
  by (simp_all add: request_def)

lemma writeFileSync_fields [simp]:
  "calls (writeFileSync path content w) = calls w"
  "files (writeFileSync path content w) = (files w)(path \<mapsto> content)"
  by (simp_all add: writeFileSync_def)

lemma secretChanged_fields [simp]:
  "files (snd (secretChanged p name newSecret w)) = files w"
  "calls (snd (secretChanged p name newSecret w)) = calls w @ [GetParameter name True]"
  by (simp_all add: secretChanged_def request_def Let_def split: sum.splits response.splits)

lemma secretChanged_verdict_any_world:
  "fst (secretChanged p name newSecret w) = fst (secretChanged p name newSecret w')"
  by (simp add: fst_secretChanged)

lemma pushSecret_fields [simp]:
  "files (snd (pushSecret p name secret w)) = files w"
  "calls (snd (pushSecret p name secret w)) =
     calls w @ [PutParameter name (if isObject secret then JStr (JSON_stringify p secret) else secret)
                  ''SecureString'' ''alias/aws/ssm'' True]"
  "fst (pushSecret p name secret w) =
     (case aws_request p
        (PutParameter name (if isObject secret then JStr (JSON_stringify p secret) else secret)
           ''SecureString'' ''alias/aws/ssm'' True) of
        Inl e \<Rightarrow> Inl e | Inr r \<Rightarrow> Inr ())"
  by (simp_all add: pushSecret_def request_def split: sum.splits)

lemma getPreviousSSMPath_fields [simp]:
  "files (snd (getPreviousSSMPath p w)) = files w"
  "calls (snd (getPreviousSSMPath p w)) = calls w @ [DescribeStacks (stackName p)]"
  by (simp_all add: getPreviousSSMPath_def request_def split: sum.splits response.splits)

lemma removeSecrets_settled_fields [simp]:
  "files (snd (removeSecrets_settled p answer w)) = files w"
  "calls (snd (removeSecrets_settled p answer w)) = calls w"
  by (simp_all add: removeSecrets_settled_def split: sum.splits)

lemma removeSecrets_fields [simp]:
  "files (snd (removeSecrets p names w)) = files w"
  "calls (snd (removeSecrets p names w)) = calls w @ [DeleteParameters names]"
  by (simp_all add: removeSecrets_def request_def)

lemma pullSecrets_fields [simp]:
  "files (snd (pullSecrets p path w)) = files w"
  "calls (snd (pullSecrets p path w)) = calls w @ [GetParametersByPath path True (Some True)]"
  by (simp_all add: pullSecrets_def request_def Let_def split: sum.splits response.splits)

lemma fst_pullSecrets:
  "fst (pullSecrets p path w) =
     (case aws_request p (GetParametersByPath path True (Some True)) of
        Inl e \<Rightarrow> Inl e
      | Inr resp \<Rightarrow> (case resp of GetParametersByPathResult ps \<Rightarrow> Inr ps | _ \<Rightarrow> Inl TypeError))"
  by (simp add: pullSecrets_def request_def Let_def split: sum.splits response.splits)

section \<open>Reading the secrets file\<close>

lemma parseSecretsFile_fields [simp]:
  "files (snd (parseSecretsFile p w)) = files w"
  "calls (snd (parseSecretsFile p w)) = calls w"
  by (simp_all add: parseSecretsFile_def split: option.splits sum.splits)

lemma parseSecretsFile_rejects_non_object:
  assumes "options p = Some opts" "file' opts = Some path" "path \<noteq> []"
    and "files w path = Some content" "yaml_load p content = Inr v" "\<not> isObject v"
  shows "parseSecretsFile p w = (Inl InvalidFormatError, w)"
  using assms by (simp add: parseSecretsFile_def falsy_def existsSync_def readFileSync_def)

lemma parseSecretsFile_accepts_object:
  assumes "options p = Some opts" "file' opts = Some path" "path \<noteq> []"
    and "files w path = Some content" "yaml_load p content = Inr v" "isObject v"
  shows "parseSecretsFile p w = (Inr v, w)"
  using assms by (simp add: parseSecretsFile_def falsy_def existsSync_def readFileSync_def)

lemma missing_file_config:
  assumes "options p = Some opts" "falsy (file' opts)"
  shows "deploySecrets p w = (Inl MissingConfigError, w)"
    and "pullDeployedSecrets p w = (Inl MissingConfigError, w)"
  using assms by (simp_all add: deploySecrets_def parseSecretsFile_def pullDeployedSecrets_def)

lemma missing_options_block:
  assumes "options p = None"
  shows "deploySecrets p w = (Inl TypeError, w)"
    and "pullDeployedSecrets p w = (Inl TypeError, w)"
  using assms by (simp_all add: deploySecrets_def parseSecretsFile_def pullDeployedSecrets_def)

lemma showNat_digits: "showNat 0 = ''0''" "showNat (Suc 0) = ''1''"
  by (simp_all add: showNat.simps)

text \<open>
  C4. A decoded root that is a string, a number, a boolean or null is rejected with
  InvalidFormatError and no request is sent (\<open>parseSecretsFile_rejects_non_object\<close>).
  A decoded root that is a sequence is not: \<^verbatim>\<open>isObject\<close> holds of an array, parseSecretsFile returns it
  (\<open>parseSecretsFile_accepts_object\<close>), and deploySecrets goes on to deploy its elements
  under the names \<^verbatim>\<open>0\<close>, \<^verbatim>\<open>1\<close>, ...
\<close>

theorem parseSecretsFile_accepts_sequence:
  "yaml_load demo ''[a, b]'' = Inr (JArr [JStr ''a'', JStr ''b''])
   \<and> parseSecretsFile demo (demo_world ''[a, b]'')
       = (Inr (JArr [JStr ''a'', JStr ''b'']), demo_world ''[a, b]'')
   \<and> fst (deploySecrets demo (demo_world ''[a, b]'')) = Inr ()
   \<and> set (calls (snd (deploySecrets demo (demo_world ''[a, b]''))))
       = {GetParameter ''/svc-dev/secrets/0'' True,
          PutParameter ''/svc-dev/secrets/0'' (JStr ''a'') ''SecureString'' ''alias/aws/ssm'' True,
          GetParameter ''/svc-dev/secrets/1'' True,
          PutParameter ''/svc-dev/secrets/1'' (JStr ''b'') ''SecureString'' ''alias/aws/ssm'' True}"
  by (simp add: deploySecrets_def parseSecretsFile_def falsy_def existsSync_def readFileSync_def
      demo_def demo_world_def demo_yaml_load_def demo_api_text_def demo_request_def
      resolveSsmPath_def deployEntry_def secretChanged_def pushSecret_def request_def
      debug_log_def log_def showNat_digits upt_rec)

text \<open>
  C7. With the options block present and its \<^verbatim>\<open>file\<close> empty or absent, deploy and pull
  throw MissingConfigError and leave the world as it was (\<open>missing_file_config\<close>). With
  the options block itself absent, the read of \<^verbatim>\<open>this.options.file\<close> throws a TypeError
  in both (\<open>missing_options_block\<close>), although the line next to it guards the same
  object with \<^verbatim>\<open>this.options?.\<close>.
\<close>

theorem missing_options_block_TypeError:
  "deploySecrets (demo\<lparr>options := None\<rparr>) empty_world = (Inl TypeError, empty_world)
   \<and> pullDeployedSecrets (demo\<lparr>options := None\<rparr>) empty_world = (Inl TypeError, empty_world)
   \<and> TypeError \<noteq> MissingConfigError"
  by (simp add: deploySecrets_def parseSecretsFile_def pullDeployedSecrets_def demo_def
      MissingConfigError_def)

text \<open>
  C8. When the configured file does not exist, deploy returns normally, having written
  one log line and sent no request at all; and the decoder has no part in it: the run is
  the same under any decoder.
\<close>

theorem deploySecrets_missing_file:
  assumes "options p = Some opts" and "file' opts = Some path" and "path \<noteq> []"
    and "files w path = None"
  shows "deploySecrets p w = (Inr (), log ''Secrets file not found, skipping...'' w)
    \<and> calls (snd (deploySecrets p w)) = calls w
    \<and> deploySecrets (p\<lparr>yaml_load := decode\<rparr>) w = deploySecrets p w"
  using assms
  by (simp add: deploySecrets_def parseSecretsFile_def falsy_def existsSync_def)

theorem deploySecrets_missing_file_witness:
  "options demo = Some \<lparr>file' = Some ''secrets.yml'', ssmPath = None\<rparr>
   \<and> files empty_world ''secrets.yml'' = None
   \<and> fst (deploySecrets demo empty_world) = Inr ()
   \<and> calls (snd (deploySecrets demo empty_world)) = []
   \<and> fst (deploySecrets (demo\<lparr>yaml_load := (\<lambda>s. Inl YAMLException)\<rparr>) empty_world) = Inr ()"
  using deploySecrets_missing_file
    [of demo "\<lparr>file' = Some ''secrets.yml'', ssmPath = None\<rparr>" "''secrets.yml''" empty_world
        "\<lambda>s. Inl YAMLException"]
  by (simp add: demo_def empty_world_def)

section \<open>Deploying\<close>

text \<open>The requests of one entry: the get, then the put when the secret has changed,
  both under the prefix followed directly by the name.\<close>

lemma deployEntry_calls:
  "calls (snd (deployEntry p prefix (name, secret) w)) =
     calls w @
       GetParameter (prefix @ name) True #
       (if fst (secretChanged p (prefix @ name) secret w)
        then [PutParameter (prefix @ name)
                (if isObject secret then JStr (JSON_stringify p secret) else secret)
                ''SecureString'' ''alias/aws/ssm'' True]
        else [])"
proof (cases "secretChanged p (prefix @ name) secret w")
  case (Pair changed w1)
  then have c: "calls w1 = calls w @ [GetParameter (prefix @ name) True]"
    using secretChanged_fields(2)[of p "prefix @ name" secret w] by simp
  show ?thesis
  proof (cases changed)
    case True
    obtain r w2 where ps: "pushSecret p (prefix @ name) secret
        (log (''- '' @ name @ '' secret changed'') w1) = (r, w2)" by force
    then have "calls w2 = calls w1 @ [PutParameter (prefix @ name)
                (if isObject secret then JStr (JSON_stringify p secret) else secret)
                ''SecureString'' ''alias/aws/ssm'' True]"
      using pushSecret_fields(2)[of p "prefix @ name" secret "log (''- '' @ name @ '' secret changed'') w1"]
      by simp
    with Pair True ps c show ?thesis
      by (cases r) (simp_all add: deployEntry_def)
  next
    case False
    with Pair c show ?thesis by (simp add: deployEntry_def)
  qed
qed

lemma deployEntry_result:
  "fst (deployEntry p prefix (name, secret) w) =
     (if fst (secretChanged p (prefix @ name) secret w)
      then (case aws_request p
              (PutParameter (prefix @ name)
                 (if isObject secret then JStr (JSON_stringify p secret) else secret)
                 ''SecureString'' ''alias/aws/ssm'' True) of
              Inl e \<Rightarrow> Inl e | Inr r \<Rightarrow> Inr ())
      else Inr ())"
proof (cases "secretChanged p (prefix @ name) secret w")
  case (Pair changed w1)
  show ?thesis
  proof (cases changed)
    case True
    obtain r w2 where ps: "pushSecret p (prefix @ name) secret
        (log (''- '' @ name @ '' secret changed'') w1) = (r, w2)" by force
    then have "r = (case aws_request p
              (PutParameter (prefix @ name)
                 (if isObject secret then JStr (JSON_stringify p secret) else secret)
                 ''SecureString'' ''alias/aws/ssm'' True) of
              Inl e \<Rightarrow> Inl e | Inr r \<Rightarrow> Inr ())"
      using pushSecret_fields(3)[of p "prefix @ name" secret "log (''- '' @ name @ '' secret changed'') w1"]
      by simp
    with Pair True ps show ?thesis
      by (cases r) (simp_all add: deployEntry_def split: sum.splits)
  next
    case False
    with Pair show ?thesis by (simp add: deployEntry_def)
  qed
qed

lemma Promise_all_deploy_calls:
  "calls (snd (Promise_all (map (deployEntry p prefix) es) w)) =
     calls w @ concat (map (\<lambda>(name, secret).
       GetParameter (prefix @ name) True #
       (if fst (secretChanged p (prefix @ name) secret w0)
        then [PutParameter (prefix @ name)
                (if isObject secret then JStr (JSON_stringify p secret) else secret)
                ''SecureString'' ''alias/aws/ssm'' True]
        else [])) es)"
proof (induction es arbitrary: w)
  case Nil
  then show ?case by simp
next
  case (Cons entry es)
  obtain name secret where entry: "entry = (name, secret)" by (cases entry)
  obtain r w1 where t: "deployEntry p prefix (name, secret) w = (r, w1)" by force
  obtain rs w2 where ts: "Promise_all (map (deployEntry p prefix) es) w1 = (rs, w2)" by force
  from t have c1: "calls w1 = calls w @
       GetParameter (prefix @ name) True #
       (if fst (secretChanged p (prefix @ name) secret w0)
        then [PutParameter (prefix @ name)
                (if isObject secret then JStr (JSON_stringify p secret) else secret)
                ''SecureString'' ''alias/aws/ssm'' True]
        else [])"
    using deployEntry_calls[of p prefix name secret w]
      secretChanged_verdict_any_world[of p "prefix @ name" secret w w0] by simp
  from ts Cons.IH[of w1] have c2: "calls w2 = calls w1 @ concat (map (\<lambda>(name, secret).
       GetParameter (prefix @ name) True #
       (if fst (secretChanged p (prefix @ name) secret w0)
        then [PutParameter (prefix @ name)
                (if isObject secret then JStr (JSON_stringify p secret) else secret)
                ''SecureString'' ''alias/aws/ssm'' True]
        else [])) es)" by simp
  from entry t ts c1 c2 show ?case by (cases r) simp_all
qed

lemma Promise_all_rejects:
  assumes "t \<in> set ts" and "\<And>w. isl (fst (t w))"
  shows "isl (fst (Promise_all ts w))"
  using assms
proof (induction ts arbitrary: w)
  case Nil
  then show ?case by simp
next
  case (Cons u us)
  obtain r w1 where u: "u w = (r, w1)" by force
  obtain rs w2 where us: "Promise_all us w1 = (rs, w2)" by force
  show ?case
  proof (cases "t = u")
    case True
    with Cons.prems(2)[of w] u have "isl r" by simp
    with u us show ?thesis by (cases r) simp_all
  next
    case False
    with Cons.prems have "t \<in> set us" by simp
    from Cons.IH[OF this Cons.prems(2), of w1] us have "isl rs" by simp
    with u us show ?thesis by (cases r) simp_all
  qed
qed

lemma deploySecrets_write_failure_propagates:
  assumes parsed: "parseSecretsFile p w = (Inr secrets, w1)"
    and entries: "Object_entries secrets = Inr es"
    and entry: "(name, secret) \<in> set es"
    and changed: "fst (secretChanged p (resolveSsmPath p @ name) secret w)"
    and failed: "aws_request p
        (PutParameter (resolveSsmPath p @ name)
           (if isObject secret then JStr (JSON_stringify p secret) else secret)
           ''SecureString'' ''alias/aws/ssm'' True) = Inl e"
  shows "isl (fst (deploySecrets p w))"
proof -
  have "\<And>w'. isl (fst (deployEntry p (resolveSsmPath p) (name, secret) w'))"
    using changed failed
      secretChanged_verdict_any_world[of p "resolveSsmPath p @ name" secret w]
    by (simp add: deployEntry_result)
  moreover have "deployEntry p (resolveSsmPath p) (name, secret)
      \<in> set (map (deployEntry p (resolveSsmPath p)) es)"
    using entry by force
  ultimately have "isl (fst (Promise_all (map (deployEntry p (resolveSsmPath p)) es) w1))"
    by (rule Promise_all_rejects[rotated])
  with parsed entries show ?thesis by (simp add: deploySecrets_def)
qed

lemma deploySecrets_calls:
  assumes parsed: "parseSecretsFile p w = (Inr secrets, w1)"
    and entries: "Object_entries secrets = Inr es"
  shows "calls (snd (deploySecrets p w)) =
     calls w @ concat (map (\<lambda>(name, secret).
       GetParameter (resolveSsmPath p @ name) True #
       (if fst (secretChanged p (resolveSsmPath p @ name) secret w)
        then [PutParameter (resolveSsmPath p @ name)
                (if isObject secret then JStr (JSON_stringify p secret) else secret)
                ''SecureString'' ''alias/aws/ssm'' True]
        else [])) es)"
proof -
  from parsed have "calls w1 = calls w"
    using parseSecretsFile_fields(2)[of p w] by simp
  with parsed entries show ?thesis
    by (simp add: deploySecrets_def Promise_all_deploy_calls[where ?w0.0 = w])
qed

section \<open>Removing\<close>

text \<open>The requests of remove: the stack is described, the parameters are listed under
  the recorded prefix followed by \<^verbatim>\<open>/secrets\<close> (a suffix the source marks as one to drop),
  and the listed names are deleted.\<close>

lemma removeDeployedSecrets_calls:
  assumes prev: "getPreviousSSMPath p w = (Inr (Some previous), w1)" and ne: "previous \<noteq> []"
    and listed: "aws_request p (GetParametersByPath (previous @ ''/secrets'') True None)
                   = Inr (GetParametersByPathResult ps)"
  shows "calls (snd (removeDeployedSecrets p w)) =
     calls w @ [DescribeStacks (stackName p),
                GetParametersByPath (previous @ ''/secrets'') True None,
                DeleteParameters (map Name ps)]"
proof -
  from prev have c1: "calls w1 = calls w @ [DescribeStacks (stackName p)]"
    using getPreviousSSMPath_fields(2)[of p w] by simp
  obtain w2 where r2: "request p (GetParametersByPath (previous @ ''/secrets'') True None) w1
      = (Inr (GetParametersByPathResult ps), w2)"
    using listed by (simp add: request_def)
  then have c2: "calls w2 = calls w1 @ [GetParametersByPath (previous @ ''/secrets'') True None]"
    using request_fields(3)[of p "GetParametersByPath (previous @ ''/secrets'') True None" w1]
    by simp
  obtain answer w3 where r3: "request p (DeleteParameters (map Name ps))
      (debug_log p (''SSM GetParametersByPath response: ''
          @ JSON_stringify_response p (GetParametersByPathResult ps)) w2) = (answer, w3)"
    by force
  then have c3: "calls w3 = calls w2 @ [DeleteParameters (map Name ps)]"
    using request_fields(3)[of p "DeleteParameters (map Name ps)"
      "debug_log p (''SSM GetParametersByPath response: ''
          @ JSON_stringify_response p (GetParametersByPathResult ps)) w2"]
    by simp
  obtain dropped w4 where r4: "removeSecrets_settled p answer
      (log (''Secrets in '' @ previous @ '' removed.'') w3) = (dropped, w4)"
    by force
  then have c4: "calls w4 = calls w3"
    using removeSecrets_settled_fields(2)[of p answer
      "log (''Secrets in '' @ previous @ '' removed.'') w3"]
    by simp
  from prev ne r2 r3 r4 c1 c2 c3 c4 show ?thesis
    by (simp add: removeDeployedSecrets_def falsy_def)
qed

lemma removeDeployedSecrets_ignores_delete_result:
  assumes prev: "getPreviousSSMPath p w = (Inr (Some previous), w1)" and ne: "previous \<noteq> []"
    and listed: "aws_request p (GetParametersByPath (previous @ ''/secrets'') True None)
                   = Inr (GetParametersByPathResult ps)"
  shows "fst (removeDeployedSecrets p w) = Inr ()"
  using assms
  by (simp add: removeDeployedSecrets_def falsy_def request_def split: prod.splits)

text \<open>
  C5. A write that fails during deploy makes deploySecrets fail
  (\<open>deploySecrets_write_failure_propagates\<close>). A deletion that fails during remove
  does not: removeSecrets is called without \<^verbatim>\<open>await\<close>, so its rejection reaches nobody
  and removeDeployedSecrets logs that the secrets are removed and returns normally
  (\<open>removeDeployedSecrets_ignores_delete_result\<close>).
\<close>

theorem removeDeployedSecrets_drops_delete_failure:
  "aws_request demo (DeleteParameters [''/svc-dev/secrets/db'', ''/svc-dev/secrets/api''])
     = Inl (AwsError ''AccessDeniedException'')
   \<and> fst (removeDeployedSecrets demo empty_world) = Inr ()
   \<and> calls (snd (removeDeployedSecrets demo empty_world))
       = [DescribeStacks ''svc-dev'',
          GetParametersByPath ''/svc-dev/secrets'' True None,
          DeleteParameters [''/svc-dev/secrets/db'', ''/svc-dev/secrets/api'']]
   \<and> cli_log (snd (removeDeployedSecrets demo empty_world)) = [''Secrets in /svc-dev removed.'']"
  by (simp add: removeDeployedSecrets_def getPreviousSSMPath_def removeSecrets_settled_def
      falsy_def demo_def demo_request_def empty_world_def request_def debug_log_def log_def)

section \<open>Pulling\<close>

lemma replace_prefix: "replace (prefix @ name) prefix [] = name"
proof (cases "prefix @ name")
  case Nil
  then show ?thesis by simp
next
  case (Cons c cs)
  have "take (length prefix) (c # cs) = prefix" and "drop (length prefix) (c # cs) = name"
    unfolding Cons[symmetric] by simp_all
  then have "replace (c # cs) prefix [] = name"
    by (simp add: startsWith_def)
  with Cons show ?thesis by simp
qed

lemma pullDeployedSecrets_calls:
  assumes "options p = Some opts" and "\<not> falsy (file' opts)"
  shows "calls (snd (pullDeployedSecrets p w)) =
     calls w @ [GetParametersByPath (resolveSsmPath p) True (Some True)]"
proof -
  obtain r w1 where ps: "pullSecrets p (resolveSsmPath p) w = (r, w1)" by force
  then have "calls w1 = calls w @ [GetParametersByPath (resolveSsmPath p) True (Some True)]"
    using pullSecrets_fields(2)[of p "resolveSsmPath p" w] by simp
  with assms ps show ?thesis
    by (simp add: pullDeployedSecrets_def split: sum.splits)
qed

lemma map_throwing_rejects:
  "\<exists>x \<in> set xs. isl (f x) \<Longrightarrow> \<exists>e. map_throwing f xs = Inl e \<and> (\<exists>x \<in> set xs. f x = Inl e)"
proof (induction xs)
  case Nil
  then show ?case by simp
next
  case (Cons y ys)
  show ?case
  proof (cases "f y")
    case (Inl e)
    then show ?thesis by auto
  next
    case (Inr v)
    with Cons.prems have "\<exists>x \<in> set ys. isl (f x)" by auto
    from Cons.IH[OF this] obtain e where "map_throwing f ys = Inl e" "\<exists>x \<in> set ys. f x = Inl e"
      by blast
    with Inr show ?thesis by auto
  qed
qed

lemma pullEntry_isl:
  "isl (pullEntry p prefix s) = isl (JSON_parse p (Value s))"
  by (cases "JSON_parse p (Value s)") (simp_all add: pullEntry_def)

lemma pullEntry_ignores_yaml_load:
  "pullEntry (p\<lparr>yaml_load := decode\<rparr>) = pullEntry p"
  by (rule ext)+ (simp add: pullEntry_def)

lemma pullSecrets_ignores_yaml_load:
  "pullSecrets (p\<lparr>yaml_load := decode\<rparr>) = pullSecrets p"
  by (rule ext)+
    (simp add: pullSecrets_def request_def debug_log_def Let_def
      split: sum.splits response.splits)

lemma resolveSsmPath_ignores_yaml_load:
  "resolveSsmPath (p\<lparr>yaml_load := decode\<rparr>) = resolveSsmPath p"
  by (simp add: resolveSsmPath_def split: option.splits)

lemma pullDeployedSecrets_ignores_yaml_load:
  "pullDeployedSecrets (p\<lparr>yaml_load := decode\<rparr>) w = pullDeployedSecrets p w"
  by (simp add: pullDeployedSecrets_def pullSecrets_ignores_yaml_load
      pullEntry_ignores_yaml_load resolveSsmPath_ignores_yaml_load
      cong: option.case_cong sum.case_cong prod.case_cong if_cong)

text \<open>
  C10. pullDeployedSecrets decodes the value of every listed entry with \<^verbatim>\<open>JSON.parse\<close>
  and never consults the YAML decoder. When the listing holds an entry whose value
  \<^verbatim>\<open>JSON.parse\<close> rejects, pull throws that parser's error and no file is written. Such
  values are what deploy itself stores for scalars: pushSecret sends a secret that is
  not an object as it is, without quoting it.
\<close>

theorem pullDeployedSecrets_rejects_non_JSON:
  assumes cfg: "options p = Some opts" "\<not> falsy (file' opts)"
    and listed: "aws_request p (GetParametersByPath (resolveSsmPath p) True (Some True))
                   = Inr (GetParametersByPathResult ps)"
    and bad: "\<exists>s \<in> set ps. isl (JSON_parse p (Value s))"
  shows "(\<exists>e. fst (pullDeployedSecrets p w) = Inl e
              \<and> (\<exists>s \<in> set ps. JSON_parse p (Value s) = Inl e))
    \<and> files (snd (pullDeployedSecrets p w)) = files w
    \<and> pullDeployedSecrets (p\<lparr>yaml_load := decode\<rparr>) w = pullDeployedSecrets p w
    \<and> (\<not> isObject secret \<longrightarrow>
         calls (snd (pushSecret p name secret w))
           = calls w @ [PutParameter name secret ''SecureString'' ''alias/aws/ssm'' True])"
proof -
  obtain w1 where ps: "pullSecrets p (resolveSsmPath p) w = (Inr ps, w1)"
    using listed fst_pullSecrets[of p "resolveSsmPath p" w]
    by (cases "pullSecrets p (resolveSsmPath p) w") simp
  then have f1: "files w1 = files w"
    using pullSecrets_fields(1)[of p "resolveSsmPath p" w] by simp
  from bad have "\<exists>s \<in> set ps. isl (pullEntry p (resolveSsmPath p) s)"
    by (simp add: pullEntry_isl)
  from map_throwing_rejects[OF this] obtain e s
    where e: "map_throwing (pullEntry p (resolveSsmPath p)) ps = Inl e"
      and s: "s \<in> set ps" "pullEntry p (resolveSsmPath p) s = Inl e"
    by blast
  from s(2) have "JSON_parse p (Value s) = Inl e"
    by (simp add: pullEntry_def split: sum.splits)
  with s(1) have "\<exists>s \<in> set ps. JSON_parse p (Value s) = Inl e" by blast
  moreover from cfg ps e have "pullDeployedSecrets p w = (Inl e, w1)"
    by (simp add: pullDeployedSecrets_def)
  ultimately show ?thesis
    using f1 pullDeployedSecrets_ignores_yaml_load[where p = p and decode = decode and w = w] by simp
qed

theorem pullDeployedSecrets_rejects_non_JSON_witness:
  "options demo = Some \<lparr>file' = Some ''secrets.yml'', ssmPath = None\<rparr>
   \<and> aws_request demo (GetParametersByPath ''/svc-dev/secrets/'' True (Some True))
       = Inr (GetParametersByPathResult
                [\<lparr>Name = ''/svc-dev/secrets/db'', Value = ''pw1''\<rparr>,
                 \<lparr>Name = ''/svc-dev/secrets/api'', Value = demo_api_text\<rparr>])
   \<and> JSON_parse demo ''pw1'' = Inl SyntaxError
   \<and> fst (pullDeployedSecrets demo (demo_world ''{db: pw1}'')) = Inl SyntaxError
   \<and> files (snd (pullDeployedSecrets demo (demo_world ''{db: pw1}''))) ''secrets.yml''
       = Some ''{db: pw1}''
   \<and> calls (snd (pushSecret demo ''/svc-dev/secrets/db'' (JStr ''pw1'') (demo_world ''{db: pw1}'')))
       = [PutParameter ''/svc-dev/secrets/db'' (JStr ''pw1'') ''SecureString'' ''alias/aws/ssm'' True]"
  using pullDeployedSecrets_rejects_non_JSON
    [where p = demo and opts = "\<lparr>file' = Some ''secrets.yml'', ssmPath = None\<rparr>"
       and ps = "[\<lparr>Name = ''/svc-dev/secrets/db'', Value = ''pw1''\<rparr>,
                  \<lparr>Name = ''/svc-dev/secrets/api'', Value = demo_api_text\<rparr>]"
       and w = "demo_world ''{db: pw1}''" and decode = "\<lambda>s. Inl YAMLException"
       and secret = "JStr ''pw1''" and name = "''/svc-dev/secrets/db''"]
  by (simp add: demo_def demo_world_def demo_request_def demo_JSON_parse_def demo_api_text_def
      resolveSsmPath_def falsy_def pullDeployedSecrets_def pullSecrets_def pullEntry_def
      request_def debug_log_def)

section \<open>The remote paths\<close>

text \<open>
  C6, as stated, fails on the sample deployment: the entry \<^verbatim>\<open>db\<close> is read at the prefix
  followed directly by the name, \<^verbatim>\<open>/svc-dev/secrets/db\<close>, and no request is sent for the
  path that the rule "prefix, then a slash, then the name" gives,
  \<^verbatim>\<open>/svc-dev/secrets//db\<close>.
\<close>

theorem deploy_paths_not_slash_joined:
  "set (calls (snd (deploySecrets demo (demo_world ''{db: pw1, api: {key: abc, ttl: 30}}''))))
     = {GetParameter ''/svc-dev/secrets/db'' True,
        GetParameter ''/svc-dev/secrets/api'' True,
        PutParameter ''/svc-dev/secrets/api'' (JStr demo_local_api_text)
          ''SecureString'' ''alias/aws/ssm'' True}
   \<and> resolveSsmPath demo @ ''/'' @ ''db'' = ''/svc-dev/secrets//db''
   \<and> GetParameter (resolveSsmPath demo @ ''/'' @ ''db'') True
        \<notin> set (calls (snd (deploySecrets demo (demo_world ''{db: pw1, api: {key: abc, ttl: 30}}''))))"
  by (simp add: deploySecrets_def parseSecretsFile_def falsy_def existsSync_def readFileSync_def
      demo_def demo_world_def demo_yaml_load_def demo_api_text_def demo_request_def
      demo_document_def demo_JSON_stringify_def
      resolveSsmPath_def deployEntry_def secretChanged_def pushSecret_def request_def
      debug_log_def log_def)

text \<open>
  C6, amended. Deploy sends, for every entry, a get at the prefix followed directly by
  the name and, when the secret has changed, a put at that same path, and nothing else.
  Pull lists under that same prefix, and recovers the name of an entry stored at the
  prefix followed by the name by taking the prefix off.
\<close>

theorem remote_paths_by_concatenation:
  "(parseSecretsFile p w = (Inr secrets, w1) \<and> Object_entries secrets = Inr es \<longrightarrow>
      set (calls (snd (deploySecrets p w))) =
        set (calls w) \<union>
        (\<Union>(name, secret) \<in> set es.
           set (GetParameter (resolveSsmPath p @ name) True #
                (if fst (secretChanged p (resolveSsmPath p @ name) secret w)
                 then [PutParameter (resolveSsmPath p @ name)
                         (if isObject secret then JStr (JSON_stringify p secret) else secret)
                         ''SecureString'' ''alias/aws/ssm'' True]
                 else []))))
   \<and> (options p = Some opts \<and> \<not> falsy (file' opts) \<longrightarrow>
      calls (snd (pullDeployedSecrets p w)) =
        calls w @ [GetParametersByPath (resolveSsmPath p) True (Some True)])
   \<and> (JSON_parse p raw = Inr v \<longrightarrow>
      pullEntry p (resolveSsmPath p) \<lparr>Name = resolveSsmPath p @ name, Value = raw\<rparr>
        = Inr (name, v))"
proof (intro conjI impI)
  assume "parseSecretsFile p w = (Inr secrets, w1) \<and> Object_entries secrets = Inr es"
  then have "calls (snd (deploySecrets p w)) =
     calls w @ concat (map (\<lambda>(name, secret).
       GetParameter (resolveSsmPath p @ name) True #
       (if fst (secretChanged p (resolveSsmPath p @ name) secret w)
        then [PutParameter (resolveSsmPath p @ name)
                (if isObject secret then JStr (JSON_stringify p secret) else secret)
                ''SecureString'' ''alias/aws/ssm'' True]
        else [])) es)"
    using deploySecrets_calls[of p w secrets w1 es] by simp
  then show "set (calls (snd (deploySecrets p w))) =
        set (calls w) \<union>
        (\<Union>(name, secret) \<in> set es.
           set (GetParameter (resolveSsmPath p @ name) True #
                (if fst (secretChanged p (resolveSsmPath p @ name) secret w)
                 then [PutParameter (resolveSsmPath p @ name)
                         (if isObject secret then JStr (JSON_stringify p secret) else secret)
                         ''SecureString'' ''alias/aws/ssm'' True]
                 else [])))"
    by (simp add: case_prod_beta)
next
  assume "options p = Some opts \<and> \<not> falsy (file' opts)"
  then show "calls (snd (pullDeployedSecrets p w)) =
        calls w @ [GetParametersByPath (resolveSsmPath p) True (Some True)]"
    using pullDeployedSecrets_calls[of p opts w] by simp
next
  assume "JSON_parse p raw = Inr v"
  then show "pullEntry p (resolveSsmPath p) \<lparr>Name = resolveSsmPath p @ name, Value = raw\<rparr>
        = Inr (name, v)"
    by (simp add: pullEntry_def replace_prefix)
qed

theorem remote_paths_by_concatenation_witness:
  "parseSecretsFile demo (demo_world ''{db: pw1, api: {key: abc, ttl: 30}}'')
     = (Inr demo_document, demo_world ''{db: pw1, api: {key: abc, ttl: 30}}'')
   \<and> Object_entries demo_document
       = Inr [(''db'', JStr ''pw1''),
              (''api'', JObj [(''key'', JStr ''abc''), (''ttl'', JNum 30)])]
   \<and> set (calls (snd (deploySecrets demo (demo_world ''{db: pw1, api: {key: abc, ttl: 30}}''))))
       = {GetParameter ''/svc-dev/secrets/db'' True,
          GetParameter ''/svc-dev/secrets/api'' True,
          PutParameter ''/svc-dev/secrets/api'' (JStr demo_local_api_text)
            ''SecureString'' ''alias/aws/ssm'' True}
   \<and> options demo = Some \<lparr>file' = Some ''secrets.yml'', ssmPath = None\<rparr>
   \<and> calls (snd (pullDeployedSecrets demo (demo_world ''{db: pw1, api: {key: abc, ttl: 30}}'')))
       = [GetParametersByPath ''/svc-dev/secrets/'' True (Some True)]
   \<and> JSON_parse demo demo_api_text = Inr (JObj [(''key'', JStr ''abc''), (''ttl'', JNum 60)])
   \<and> pullEntry demo ''/svc-dev/secrets/'' \<lparr>Name = ''/svc-dev/secrets/api'', Value = demo_api_text\<rparr>
       = Inr (''api'', JObj [(''key'', JStr ''abc''), (''ttl'', JNum 60)])"
  using remote_paths_by_concatenation
    [where p = demo and w = "demo_world ''{db: pw1, api: {key: abc, ttl: 30}}''"
       and secrets = demo_document
       and ?w1.0 = "demo_world ''{db: pw1, api: {key: abc, ttl: 30}}''"
       and es = "[(''db'', JStr ''pw1''),
                  (''api'', JObj [(''key'', JStr ''abc''), (''ttl'', JNum 30)])]"
       and opts = "\<lparr>file' = Some ''secrets.yml'', ssmPath = None\<rparr>"
       and raw = demo_api_text and name = "''api''"
       and v = "JObj [(''key'', JStr ''abc''), (''ttl'', JNum 60)]"]
  by (simp add: parseSecretsFile_def falsy_def existsSync_def readFileSync_def
      demo_def demo_world_def demo_yaml_load_def demo_api_text_def demo_request_def
      demo_document_def demo_JSON_stringify_def demo_JSON_parse_def
      resolveSsmPath_def fst_secretChanged insert_commute)

end
